theory Spec2Isabelle
  imports Main "HOL-Library.Word"
begin

section \<open>Time and durations\<close>

text \<open>
  A \<^verbatim>\<open>time.Time\<close> is modelled as the number of nanoseconds since the zero value
  \<^verbatim>\<open>time.Time{}\<close>, an unbounded integer. A \<^verbatim>\<open>time.Duration\<close> is an \<^verbatim>\<open>int64\<close> count of
  nanoseconds: a 64-bit word, read by \<open>sint\<close>, whose addition wraps around. The clock is
  an input: every call of \<^verbatim>\<open>time.Now\<close> or \<^verbatim>\<open>time.Since\<close> receives its reading as an argument.
\<close>

type_synonym Time = int
type_synonym Duration = "64 word"

definition zeroTime :: Time where
  "zeroTime = 0"

definition maxDuration :: int where
  "maxDuration = 2 ^ 63 - 1"

definition minDuration :: int where
  "minDuration = - (2 ^ 63)"

text \<open>
  \<^verbatim>\<open>t.Sub(u)\<close>: the difference, replaced by the largest (smallest) duration when it does
  not fit an \<^verbatim>\<open>int64\<close>, as the library documents.
\<close>

definition Sub :: "Time \<Rightarrow> Time \<Rightarrow> Duration" where
  "Sub t u =
     (if maxDuration < t - u then word_of_int maxDuration
      else if t - u < minDuration then word_of_int minDuration
      else word_of_int (t - u))"

text \<open>\<^verbatim>\<open>time.Since(t)\<close> is \<^verbatim>\<open>time.Now().Sub(t)\<close>; \<open>now\<close> is the clock reading of the call.\<close>

definition Since :: "Time \<Rightarrow> Time \<Rightarrow> Duration" where
  "Since now t = Sub now t"

section \<open>Errors\<close>

text \<open>
  Modelled from the spec: the sentinel errors \<^verbatim>\<open>ErrBadValue\<close>, \<^verbatim>\<open>ErrOutOfMaxIdleTime\<close> and
  \<^verbatim>\<open>ErrOutOfMaxLife\<close>, which the pool package declares in another file, are three distinct
  values. An \<^verbatim>\<open>error\<close> value is \<open>error option\<close>, \<open>None\<close> being \<^verbatim>\<open>nil\<close>. The adapter's
  own \<^verbatim>\<open>errCloseInRW\<close> is a fourth constructor; any other error (one returned by a
  transport, say) is \<open>OtherError\<close> with an identifying number.
\<close>

datatype error =
    ErrBadValue
  | ErrOutOfMaxIdleTime
  | ErrOutOfMaxLife
  | errCloseInRW
  | OtherError nat

section \<open>Metadata tracker (meta.go)\<close>

record Meta =
  CreateTime :: Time
  LastUseTime :: Time
  UsedTimes :: "64 word"
  UsedDuration :: Duration

record MetaInfo =
  meta :: Meta
  using' :: bool

text \<open>
  Modelled from the spec: the pool's \<^verbatim>\<open>Option\<close>, declared in another file of the package.
  Its fields \<^verbatim>\<open>MaxIdleTime\<close> and \<^verbatim>\<open>MaxLifeTime\<close>, the two that \<^verbatim>\<open>Active\<close> reads, are
  durations; every other field lives in the record's extension.
\<close>

record Option =
  MaxIdleTime :: Duration
  MaxLifeTime :: Duration

text \<open>\<^verbatim>\<open>NewMetaInfo\<close>: only \<^verbatim>\<open>CreateTime\<close> is set, every other field has its zero value.\<close>

definition NewMetaInfo :: "Time \<Rightarrow> MetaInfo" where
  "NewMetaInfo now =
     \<lparr> meta = \<lparr> CreateTime = now, LastUseTime = zeroTime, UsedTimes = 0, UsedDuration = 0 \<rparr>,
       using' = False \<rparr>"

definition PEMarkUsing :: "Time \<Rightarrow> MetaInfo \<Rightarrow> MetaInfo" where
  "PEMarkUsing now w =
     w \<lparr> using' := True,
         meta := (meta w) \<lparr> LastUseTime := now, UsedTimes := UsedTimes (meta w) + 1 \<rparr> \<rparr>"

definition PEMarkIdle :: "Time \<Rightarrow> MetaInfo \<Rightarrow> MetaInfo" where
  "PEMarkIdle now w =
     w \<lparr> using' := False,
         meta := (meta w) \<lparr> UsedDuration := UsedDuration (meta w) + Sub now (LastUseTime (meta w)),
                            LastUseTime := now \<rparr> \<rparr>"

text \<open>
  \<^verbatim>\<open>Active\<close> reads the clock up to twice: \<open>now1\<close> is the reading of the first
  \<^verbatim>\<open>time.Since\<close>, \<open>now2\<close> that of the second. The comparisons are those of \<^verbatim>\<open>int64\<close>.
\<close>

definition Active :: "MetaInfo \<Rightarrow> Option \<Rightarrow> Time \<Rightarrow> Time \<Rightarrow> error option" where
  "Active w opt now1 now2 =
     (let lastUse = LastUseTime (meta w) in
      if 0 <s MaxIdleTime opt \<and> MaxIdleTime opt \<le>s Since now1 lastUse then Some ErrOutOfMaxIdleTime
      else if 0 <s MaxLifeTime opt \<and> MaxLifeTime opt \<le>s Since now2 (CreateTime (meta w))
        then Some ErrOutOfMaxLife
      else None)"

definition PEMeta :: "MetaInfo \<Rightarrow> Meta" where
  "PEMeta w = meta w"

subsection \<open>Sequences of metadata operations\<close>

text \<open>
  A call of \<^verbatim>\<open>PEMarkUsing\<close> or \<^verbatim>\<open>PEMarkIdle\<close> together with the clock reading it
  receives; \<open>states\<close> lists the successive values of a \<open>MetaInfo\<close> along a sequence of
  calls, \<open>cycles\<close> runs complete mark-using/mark-idle cycles, each given by its two readings.
\<close>

datatype metaOp = MarkUsing Time | MarkIdle Time

fun opTime :: "metaOp \<Rightarrow> Time" where
  "opTime (MarkUsing t) = t"
| "opTime (MarkIdle t) = t"

fun applyOp :: "metaOp \<Rightarrow> MetaInfo \<Rightarrow> MetaInfo" where
  "applyOp (MarkUsing t) w = PEMarkUsing t w"
| "applyOp (MarkIdle t) w = PEMarkIdle t w"

fun states :: "metaOp list \<Rightarrow> MetaInfo \<Rightarrow> MetaInfo list" where
  "states [] w = [w]"
| "states (x # xs) w = w # states xs (applyOp x w)"

fun cycles :: "(Time \<times> Time) list \<Rightarrow> MetaInfo \<Rightarrow> MetaInfo" where
  "cycles [] w = w"
| "cycles ((tu, ti) # cs) w = cycles cs (PEMarkIdle ti (PEMarkUsing tu w))"

text \<open>
  No addition of the sequence overflows: \<open>counterFits\<close> for the \<^verbatim>\<open>uint64\<close> counter
  \<^verbatim>\<open>UsedTimes\<close>, \<open>durationFits\<close> for the \<^verbatim>\<open>int64\<close> sum \<^verbatim>\<open>UsedDuration\<close>.
\<close>

fun counterFits :: "metaOp list \<Rightarrow> MetaInfo \<Rightarrow> bool" where
  "counterFits [] w = True"
| "counterFits (MarkUsing t # xs) w =
     (unat (UsedTimes (meta w)) + 1 < 2 ^ 64 \<and> counterFits xs (PEMarkUsing t w))"
| "counterFits (MarkIdle t # xs) w = counterFits xs (PEMarkIdle t w)"

fun durationFits :: "metaOp list \<Rightarrow> MetaInfo \<Rightarrow> bool" where
  "durationFits [] w = True"
| "durationFits (MarkUsing t # xs) w = durationFits xs (PEMarkUsing t w)"
| "durationFits (MarkIdle t # xs) w =
     (sint (UsedDuration (meta w)) + sint (Sub t (LastUseTime (meta w))) \<le> maxDuration \<and>
      durationFits xs (PEMarkIdle t w))"

section \<open>Connection adapter (conn.go)\<close>

text \<open>
  The raw connection of an adapter is a \<^verbatim>\<open>net.Conn\<close>, an interface. Its dynamic value is
  \<^item> \<open>Socket\<close>: a connection of a foreign type with no \<^verbatim>\<open>Raw\<close> method,
  \<^item> \<open>Custom\<close>: a connection of a foreign type with a method \<^verbatim>\<open>Raw() net.Conn\<close>, which
    returns the given connection, or
  \<^item> \<open>Adapter\<close>: a \<^verbatim>\<open>*pConn\<close>.
  A foreign connection carries an identifying number, the answer of its \<^verbatim>\<open>PEActive\<close> method
  when its type has one (\<open>None\<close> when the type assertion to \<^verbatim>\<open>PEActiver\<close> fails), and the
  list of the calls it has received so far. What a foreign connection answers to a call is
  an input of the operation that makes the call.
\<close>

datatype call =
    CallRead
  | CallWrite
  | CallSetDeadline Time
  | CallSetReadDeadline Time
  | CallSetWriteDeadline Time

text \<open>
  Modelled from the spec: the owning pool is a value of the interface \<^verbatim>\<open>NewElementNeed\<close>,
  declared in another file of the package. \<open>Option\<close> is what its \<^verbatim>\<open>Option()\<close> returns; its
  \<^verbatim>\<open>Put\<close> is an argument of \<open>Close\<close>.
\<close>

record NewElementNeed =
  Option :: Option

datatype conn =
    Socket nat "error option option" "call list"
  | Custom nat "error option option" conn "call list"
  | Adapter pConn
and pConn =
    PConn (metaInfo: MetaInfo) (pool: NewElementNeed) (raw: conn) (lastErr: "error option")
      (readStat: "8 word") (writeStat: "8 word")

definition statInit :: "8 word" where
  "statInit = 0"

definition statStart :: "8 word" where
  "statStart = 1"

definition statDone :: "8 word" where
  "statDone = 2"

definition newPConn :: "Time \<Rightarrow> conn \<Rightarrow> NewElementNeed \<Rightarrow> pConn" where
  "newPConn now r p = PConn (NewMetaInfo now) p r None 0 0"

text \<open>Assignments to single fields of an adapter.\<close>

fun set_lastErr :: "error option \<Rightarrow> pConn \<Rightarrow> pConn" where
  "set_lastErr e' (PConn m p r e rs ws) = PConn m p r e' rs ws"

fun set_readStat :: "8 word \<Rightarrow> pConn \<Rightarrow> pConn" where
  "set_readStat rs' (PConn m p r e rs ws) = PConn m p r e rs' ws"

fun set_writeStat :: "8 word \<Rightarrow> pConn \<Rightarrow> pConn" where
  "set_writeStat ws' (PConn m p r e rs ws) = PConn m p r e rs ws'"

definition setErr :: "error option \<Rightarrow> pConn \<Rightarrow> pConn" where
  "setErr err c = (if err \<noteq> None then set_lastErr err c else c)"

definition isDoing :: "pConn \<Rightarrow> bool" where
  "isDoing c = (readStat c = statStart \<or> writeStat c = statStart)"

text \<open>
  The five operations that call the raw connection. Each takes the error \<open>err\<close> that the
  innermost foreign connection answers and returns the adapter afterwards together with
  the error it returns itself (the byte count and the buffer of \<^verbatim>\<open>Read\<close> and \<^verbatim>\<open>Write\<close> pass
  through untouched and are left out). \<open>invoke\<close> is the dynamic dispatch of the call on
  the raw connection: a foreign connection records the call; an adapter runs its own
  method, which calls its own raw connection in turn.
\<close>

fun invoke :: "call \<Rightarrow> error option \<Rightarrow> conn \<Rightarrow> conn"
  and Read :: "error option \<Rightarrow> pConn \<Rightarrow> pConn \<times> error option"
  and Write :: "error option \<Rightarrow> pConn \<Rightarrow> pConn \<times> error option"
  and SetDeadline :: "Time \<Rightarrow> error option \<Rightarrow> pConn \<Rightarrow> pConn \<times> error option"
  and SetReadDeadline :: "Time \<Rightarrow> error option \<Rightarrow> pConn \<Rightarrow> pConn \<times> error option"
  and SetWriteDeadline :: "Time \<Rightarrow> error option \<Rightarrow> pConn \<Rightarrow> pConn \<times> error option"
where
  "invoke cl err (Socket i a cs) = Socket i a (cs @ [cl])"
| "invoke cl err (Custom i a r cs) = Custom i a r (cs @ [cl])"
| "invoke CallRead err (Adapter p) = Adapter (fst (Read err p))"
| "invoke CallWrite err (Adapter p) = Adapter (fst (Write err p))"
| "invoke (CallSetDeadline t) err (Adapter p) = Adapter (fst (SetDeadline t err p))"
| "invoke (CallSetReadDeadline t) err (Adapter p) = Adapter (fst (SetReadDeadline t err p))"
| "invoke (CallSetWriteDeadline t) err (Adapter p) = Adapter (fst (SetWriteDeadline t err p))"
| "Read err (PConn m p r e rs ws) =
     (let r' = invoke CallRead err r;
          c1 = setErr err (PConn m p r' e statStart ws)
      in (set_readStat statDone c1, err))"
| "Write err (PConn m p r e rs ws) =
     (let r' = invoke CallWrite err r;
          c1 = setErr err (PConn m p r' e rs statStart)
      in (set_writeStat statDone c1, err))"
| "SetDeadline t err (PConn m p r e rs ws) =
     (let r' = invoke (CallSetDeadline t) err r
      in (setErr err (PConn m p r' e rs ws), err))"
| "SetReadDeadline t err (PConn m p r e rs ws) =
     (let r' = invoke (CallSetReadDeadline t) err r
      in (setErr err (PConn m p r' e rs ws), err))"
| "SetWriteDeadline t err (PConn m p r e rs ws) =
     (let r' = invoke (CallSetWriteDeadline t) err r
      in (setErr err (PConn m p r' e rs ws), err))"

text \<open>
  \<^verbatim>\<open>PEReset\<close>: \<open>e1\<close>, \<open>e2\<close> and \<open>e3\<close> are the answers to the three calls, which the code
  discards (after \<^verbatim>\<open>setErr\<close> has seen them).
\<close>

definition PEReset :: "error option \<Rightarrow> error option \<Rightarrow> error option \<Rightarrow> pConn \<Rightarrow> pConn" where
  "PEReset e1 e2 e3 c =
     (let c1 = fst (SetDeadline zeroTime e1 c);
          c2 = fst (SetReadDeadline zeroTime e2 c1);
          c3 = fst (SetWriteDeadline zeroTime e3 c2)
      in set_writeStat statInit (set_readStat statInit c3))"

text \<open>
  \<^verbatim>\<open>Close\<close>: \<open>put\<close> is the \<^verbatim>\<open>Put\<close> of the owning pool, applied to the adapter as \<^verbatim>\<open>Close\<close>
  leaves it. The result is that adapter and what \<^verbatim>\<open>Put\<close> returns.
\<close>

definition Close :: "(pConn \<Rightarrow> 'r) \<Rightarrow> pConn \<Rightarrow> pConn \<times> 'r" where
  "Close put c =
     (let c1 = (if lastErr c = None \<and> isDoing c then set_lastErr (Some errCloseInRW) c else c)
      in (c1, put c1))"

definition Raw :: "pConn \<Rightarrow> conn" where
  "Raw c = raw c"

text \<open>
  The type assertion of a connection to \<^verbatim>\<open>interface{ Raw() net.Conn }\<close> followed by the
  call: \<open>None\<close> when the assertion fails.
\<close>

fun conn_Raw :: "conn \<Rightarrow> conn option" where
  "conn_Raw (Socket i a cs) = None"
| "conn_Raw (Custom i a r cs) = Some r"
| "conn_Raw (Adapter p) = Some (Raw p)"

definition getRawConn :: "pConn \<Rightarrow> conn" where
  "getRawConn c = (case conn_Raw (raw c) of Some r \<Rightarrow> r | None \<Rightarrow> raw c)"

text \<open>
  \<^verbatim>\<open>PEActive\<close>. The liveness probe \<^verbatim>\<open>connCheck\<close>, declared in another file of the
  package, is an argument. \<open>clk d\<close> are the two clock readings that \<^verbatim>\<open>Active\<close> receives in the
  call at nesting depth \<open>d\<close>. \<open>conn_PEActive\<close> is the type assertion of the raw connection
  to \<^verbatim>\<open>PEActiver\<close> followed by the call: \<open>None\<close> when the assertion fails.
\<close>

fun conn_PEActive :: "(conn \<Rightarrow> error option) \<Rightarrow> (nat \<Rightarrow> Time \<times> Time) \<Rightarrow> nat \<Rightarrow> conn
    \<Rightarrow> error option option"
  and PEActive :: "(conn \<Rightarrow> error option) \<Rightarrow> (nat \<Rightarrow> Time \<times> Time) \<Rightarrow> nat \<Rightarrow> pConn
    \<Rightarrow> error option"
where
  "conn_PEActive connCheck clk d (Socket i a cs) = a"
| "conn_PEActive connCheck clk d (Custom i a r cs) = a"
| "conn_PEActive connCheck clk d (Adapter p) = Some (PEActive connCheck clk d p)"
| "PEActive connCheck clk d (PConn m p r e rs ws) =
     (if e \<noteq> None \<or> isDoing (PConn m p r e rs ws) then Some ErrBadValue
      else case Active m (Option p) (fst (clk d)) (snd (clk d)) of
        Some ea \<Rightarrow> Some ea
      | None \<Rightarrow>
          (case conn_PEActive connCheck clk (Suc d) r of
            Some (Some ea) \<Rightarrow> Some ea
          | _ \<Rightarrow> connCheck (getRawConn (PConn m p r e rs ws))))"

text \<open>
  The connection reached by unwrapping every level: the reading of "the innermost raw
  connection" that \<open>getRawConn\<close> is compared with.
\<close>

fun innermost :: "conn \<Rightarrow> conn" where
  "innermost (Socket i a cs) = Socket i a cs"
| "innermost (Custom i a r cs) = innermost r"
| "innermost (Adapter (PConn m p r e rs ws)) = innermost r"

text \<open>The calls received so far by the foreign connection that an operation reaches.\<close>

fun received :: "conn \<Rightarrow> call list" where
  "received (Socket i a cs) = cs"
| "received (Custom i a r cs) = cs"
| "received (Adapter (PConn m p r e rs ws)) = received r"

text \<open>
  A call of an operation of the adapter together with the answers of the raw connection;
  \<open>runConnOps\<close> runs a sequence of such calls. For \<open>DoClose\<close> only the adapter is kept, not
  what \<^verbatim>\<open>Put\<close> returns.
\<close>

datatype connOp =
    DoRead "error option"
  | DoWrite "error option"
  | DoSetDeadline Time "error option"
  | DoSetReadDeadline Time "error option"
  | DoSetWriteDeadline Time "error option"
  | DoPEReset "error option" "error option" "error option"
  | DoClose

fun applyConnOp :: "connOp \<Rightarrow> pConn \<Rightarrow> pConn" where
  "applyConnOp (DoRead err) c = fst (Read err c)"
| "applyConnOp (DoWrite err) c = fst (Write err c)"
| "applyConnOp (DoSetDeadline t err) c = fst (SetDeadline t err c)"
| "applyConnOp (DoSetReadDeadline t err) c = fst (SetReadDeadline t err c)"
| "applyConnOp (DoSetWriteDeadline t err) c = fst (SetWriteDeadline t err c)"
| "applyConnOp (DoPEReset e1 e2 e3) c = PEReset e1 e2 e3 c"
| "applyConnOp DoClose c = fst (Close (\<lambda>_. ()) c)"

fun runConnOps :: "connOp list \<Rightarrow> pConn \<Rightarrow> pConn" where
  "runConnOps [] c = c"
| "runConnOps (x # xs) c = runConnOps xs (applyConnOp x c)"

text \<open>An operation all of whose calls on the raw connection are answered without error.\<close>

fun succeeds :: "connOp \<Rightarrow> bool" where
  "succeeds (DoRead err) = (err = None)"
| "succeeds (DoWrite err) = (err = None)"
| "succeeds (DoSetDeadline t err) = (err = None)"
| "succeeds (DoSetReadDeadline t err) = (err = None)"
| "succeeds (DoSetWriteDeadline t err) = (err = None)"
| "succeeds (DoPEReset e1 e2 e3) = (e1 = None \<and> e2 = None \<and> e3 = None)"
| "succeeds DoClose = True"

section \<open>Reading the metadata of any value (meta.go)\<close>

text \<open>
  A run-time panic: a failed type assertion, the dereference of a \<^verbatim>\<open>nil\<close> pointer, a panic
  raised by a method of a foreign type, or the use as a map key of a value whose dynamic
  type is not comparable.
\<close>

datatype panic =
    PanicTypeAssertion
  | PanicNilDereference
  | PanicInForeignMethod
  | PanicUnhashableKey

text \<open>
  A \<^verbatim>\<open>*MetaInfo\<close> is the \<^verbatim>\<open>nil\<close> pointer, a pointer to a \<^verbatim>\<open>MetaInfo\<close> whose field \<^verbatim>\<open>meta\<close> is
  \<^verbatim>\<open>nil\<close> (the zero value \<^verbatim>\<open>&MetaInfo{}\<close>, which \<^verbatim>\<open>NewMetaInfo\<close> never returns), or a pointer
  to a tracker with its metadata. A \<^verbatim>\<open>*pConn\<close> is the \<^verbatim>\<open>nil\<close> pointer or a pointer to an
  adapter, given by the \<^verbatim>\<open>*MetaInfo\<close> it embeds: its other fields play no part in \<^verbatim>\<open>PEMeta\<close>.
\<close>

datatype metaInfoRef = NilMetaInfo | MetaInfoNoMeta | RefMetaInfo MetaInfo

datatype pConnRef = NilPConn | PConnWith metaInfoRef

text \<open>
  \<^verbatim>\<open>PEMeta\<close> called through a pointer: it locks \<^verbatim>\<open>w.mu\<close> and copies \<^verbatim>\<open>*w.meta\<close>, so it panics
  when \<^verbatim>\<open>w\<close> or \<^verbatim>\<open>w.meta\<close> is \<^verbatim>\<open>nil\<close>. On a \<^verbatim>\<open>*pConn\<close> the call is promoted from the embedded
  \<^verbatim>\<open>*MetaInfo\<close>.
\<close>

fun metaInfoRef_PEMeta :: "metaInfoRef \<Rightarrow> panic + Meta" where
  "metaInfoRef_PEMeta NilMetaInfo = Inl PanicNilDereference"
| "metaInfoRef_PEMeta MetaInfoNoMeta = Inl PanicNilDereference"
| "metaInfoRef_PEMeta (RefMetaInfo w) = Inr (PEMeta w)"

fun pConnRef_PEMeta :: "pConnRef \<Rightarrow> panic + Meta" where
  "pConnRef_PEMeta NilPConn = Inl PanicNilDereference"
| "pConnRef_PEMeta (PConnWith r) = metaInfoRef_PEMeta r"

text \<open>
  The argument of \<^verbatim>\<open>ReadMeta\<close> is an \<^verbatim>\<open>interface{}\<close>: the \<^verbatim>\<open>nil\<close> interface, a
  \<^verbatim>\<open>*MetaInfo\<close>, a \<^verbatim>\<open>*pConn\<close>, or a value of any other type, given by an identifying
  number and by what its method \<^verbatim>\<open>PEMeta() Meta\<close> does when its type has one: \<open>None\<close> when
  the type has no such method, \<open>Some None\<close> when the call panics, \<open>Some (Some m)\<close> when it
  returns \<open>m\<close>. \<open>itemOfPConn\<close> is the interface value holding an adapter made by
  \<open>newPConn\<close>.
\<close>

datatype item =
    ItemNil
  | ItemMetaInfo metaInfoRef
  | ItemPConn pConnRef
  | ItemOther nat "Meta option option"

definition itemOfPConn :: "pConn \<Rightarrow> item" where
  "itemOfPConn c = ItemPConn (PConnWith (RefMetaInfo (metaInfo c)))"

fun implementsPEMeta :: "item \<Rightarrow> bool" where
  "implementsPEMeta ItemNil = False"
| "implementsPEMeta (ItemMetaInfo r) = True"
| "implementsPEMeta (ItemPConn r) = True"
| "implementsPEMeta (ItemOther i None) = False"
| "implementsPEMeta (ItemOther i (Some res)) = True"

fun ReadMeta :: "item \<Rightarrow> panic + Meta" where
  "ReadMeta ItemNil = Inl PanicTypeAssertion"
| "ReadMeta (ItemMetaInfo r) = metaInfoRef_PEMeta r"
| "ReadMeta (ItemPConn r) = pConnRef_PEMeta r"
| "ReadMeta (ItemOther i None) = Inl PanicTypeAssertion"
| "ReadMeta (ItemOther i (Some None)) = Inl PanicInForeignMethod"
| "ReadMeta (ItemOther i (Some (Some m))) = Inr m"

section \<open>Registry of encoder pools\<close>

text \<open>
  A name is an \<^verbatim>\<open>interface{}\<close> used as a map key: a string, another value of a comparable
  type that is equal to itself (given by an identifying number), or a value of a type that
  is not comparable (a slice, a map, a function), on which indexing the map panics. An
  \<^verbatim>\<open>EncoderPool\<close> is an interface value: \<open>None\<close> is \<^verbatim>\<open>nil\<close>, \<open>Some i\<close> the pool object
  number \<open>i\<close>. The registry is the package variable \<^verbatim>\<open>encoderPools\<close>; the operations take
  its value and return the new one.
\<close>

datatype name = NameString string | NameOther nat | NameUnhashable nat

fun hashable :: "name \<Rightarrow> bool" where
  "hashable (NameString s) = True"
| "hashable (NameOther i) = True"
| "hashable (NameUnhashable i) = False"

type_synonym EncoderPool = "nat option"

type_synonym registry = "name \<Rightarrow> EncoderPool option"

datatype registerError = ErrAlreadyExists name

definition encoderPoolNameDefaultText :: string where
  "encoderPoolNameDefaultText = ''default_text''"

definition encoderPoolNameDefaultJSON :: string where
  "encoderPoolNameDefaultJSON = ''default_json''"

definition DefaultTextEncoderPool :: EncoderPool where
  "DefaultTextEncoderPool = Some 0"

definition DefaultJSONEncoderPool :: EncoderPool where
  "DefaultJSONEncoderPool = Some 1"

definition encoderPools :: registry where
  "encoderPools =
     [NameString encoderPoolNameDefaultText \<mapsto> DefaultTextEncoderPool,
      NameString encoderPoolNameDefaultJSON \<mapsto> DefaultJSONEncoderPool]"

definition RegisterEncoderPool ::
  "name \<Rightarrow> EncoderPool \<Rightarrow> registry \<Rightarrow> panic + (registerError option \<times> registry)" where
  "RegisterEncoderPool n pl reg =
     (if \<not> hashable n then Inl PanicUnhashableKey
      else case reg n of
        Some _ \<Rightarrow> Inr (Some (ErrAlreadyExists n), reg)
      | None \<Rightarrow> Inr (None, reg(n \<mapsto> pl)))"

definition GetEncoderPool :: "name \<Rightarrow> registry \<Rightarrow> panic + EncoderPool" where
  "GetEncoderPool n reg =
     (if n = NameString encoderPoolNameDefaultText then Inr DefaultTextEncoderPool
      else if n = NameString encoderPoolNameDefaultJSON then Inr DefaultJSONEncoderPool
      else if \<not> hashable n then Inl PanicUnhashableKey
      else case reg n of Some pl \<Rightarrow> Inr pl | None \<Rightarrow> Inr None)"

text \<open>
  The registry after a sequence of calls of \<^verbatim>\<open>RegisterEncoderPool\<close>; a call that panics
  or returns an error leaves it as it was.
\<close>

fun registerAll :: "(name \<times> EncoderPool) list \<Rightarrow> registry \<Rightarrow> registry" where
  "registerAll [] reg = reg"
| "registerAll ((n, pl) # xs) reg =
     registerAll xs (case RegisterEncoderPool n pl reg of Inl _ \<Rightarrow> reg | Inr (_, reg') \<Rightarrow> reg')"

section \<open>Verified properties\<close>

subsection \<open>Metadata tracker\<close>


lemma sint_of_int64:
  "- (2 ^ 63) \<le> x \<Longrightarrow> x < 2 ^ 63 \<Longrightarrow> sint (word_of_int x :: 64 word) = x"
  by (simp add: sint_sbintrunc' signed_take_bit_int_eq_self)

lemma sint_Sub: "sint (Sub t u) = max minDuration (min maxDuration (t - u))"
proof -
  let ?d = "t - u"
  consider "maxDuration < ?d" | "?d < minDuration" | "minDuration \<le> ?d" "?d \<le> maxDuration"
    by linarith
  then show ?thesis
  proof cases
    case 1
    then show ?thesis
      unfolding Sub_def by (simp add: maxDuration_def minDuration_def)
  next
    case 2
    then show ?thesis
      unfolding Sub_def by (simp add: maxDuration_def minDuration_def)
  next
    case 3
    then have "sint (word_of_int ?d :: 64 word) = ?d"
      by (intro sint_of_int64) (simp_all add: maxDuration_def minDuration_def)
    with 3 show ?thesis
      unfolding Sub_def by (simp del: of_int_diff add: max_def min_def)
  qed
qed

lemma sint_add64:
  fixes a b :: "64 word"
  assumes "- (2 ^ 63) \<le> sint a + sint b" "sint a + sint b < 2 ^ 63"
  shows "sint (a + b) = sint a + sint b"
  using assms by (simp add: sint_word_ariths signed_take_bit_int_eq_self)

lemma unat_Suc64:
  fixes a :: "64 word"
  assumes "unat a + 1 < 2 ^ 64"
  shows "unat (a + 1) = unat a + 1"
  using assms by (simp add: unat_word_ariths)

lemma cycles_UsedTimes:
  "UsedTimes (meta (cycles cs w)) = UsedTimes (meta w) + of_nat (length cs)"
  by (induction cs w rule: cycles.induct) (simp_all add: PEMarkUsing_def PEMarkIdle_def)

lemma cycles_UsedDuration:
  "UsedDuration (meta (cycles cs w)) = UsedDuration (meta w) + (\<Sum>(tu, ti)\<leftarrow>cs. Sub ti tu)"
  by (induction cs w rule: cycles.induct) (simp_all add: PEMarkUsing_def PEMarkIdle_def)


lemma sum_cycles_nonneg:
  "\<forall>(tu, ti)\<in>set cs. tu \<le> ti \<Longrightarrow> 0 \<le> (\<Sum>(tu, ti)\<leftarrow>cs. ti - tu)" for cs :: "(Time \<times> Time) list"
  by (induction cs) auto

lemma cycles_sint:
  assumes "\<forall>(tu, ti)\<in>set cs. tu \<le> ti"
    and "0 \<le> sint (UsedDuration (meta w))"
    and "sint (UsedDuration (meta w)) + (\<Sum>(tu, ti)\<leftarrow>cs. ti - tu) \<le> maxDuration"
  shows "sint (UsedDuration (meta (cycles cs w))) =
    sint (UsedDuration (meta w)) + (\<Sum>(tu, ti)\<leftarrow>cs. ti - tu)"
  using assms
proof (induction cs w rule: cycles.induct)
  case (1 w)
  then show ?case by simp
next
  case (2 tu ti cs w)
  let ?w = "PEMarkIdle ti (PEMarkUsing tu w)"
  let ?rest = "\<Sum>(tu, ti)\<leftarrow>cs. ti - tu"
  have rest: "0 \<le> ?rest"
    using "2.prems"(1) by (intro sum_cycles_nonneg) simp
  have le: "tu \<le> ti"
    using "2.prems"(1) by simp
  have bound: "sint (UsedDuration (meta w)) + (ti - tu) + ?rest \<le> maxDuration"
    using "2.prems"(3) by simp
  have d: "sint (Sub ti tu) = ti - tu"
    using le rest bound "2.prems"(2)
    by (simp add: sint_Sub max_def min_def minDuration_def maxDuration_def)
  have step: "sint (UsedDuration (meta ?w)) = sint (UsedDuration (meta w)) + (ti - tu)"
    using le rest bound "2.prems"(2) d
    by (simp add: PEMarkIdle_def PEMarkUsing_def sint_add64 maxDuration_def)
  have "sint (UsedDuration (meta (cycles cs ?w))) = sint (UsedDuration (meta ?w)) + ?rest"
    using "2.prems"(1) le "2.prems"(2) bound step by (intro "2.IH") simp_all
  then show ?case
    using step by simp
qed

lemma states_Cons: "\<exists>ws. states xs w = w # ws"
  by (cases xs) simp_all

lemma sorted_states_step:
  fixes f :: "MetaInfo \<Rightarrow> 'a::linorder"
  assumes "f w \<le> f (applyOp x w)" and "sorted (map f (states xs (applyOp x w)))"
  shows "sorted (map f (states (x # xs) w))"
proof -
  obtain ws where "states xs (applyOp x w) = applyOp x w # ws"
    using states_Cons by blast
  with assms show ?thesis by auto
qed

lemma LastUseTime_applyOp: "LastUseTime (meta (applyOp x w)) = opTime x"
  by (cases x) (simp_all add: PEMarkUsing_def PEMarkIdle_def)

lemma CreateTime_applyOp: "CreateTime (meta (applyOp x w)) = CreateTime (meta w)"
  by (cases x) (simp_all add: PEMarkUsing_def PEMarkIdle_def)

lemma states_CreateTime:
  "s \<in> set (states xs w) \<Longrightarrow> CreateTime (meta s) = CreateTime (meta w)"
  by (induction xs arbitrary: w) (auto simp: CreateTime_applyOp)

lemma states_LastUseTime:
  "sorted (LastUseTime (meta w) # map opTime xs) \<Longrightarrow>
   sorted (map (\<lambda>s. LastUseTime (meta s)) (states xs w))"
proof (induction xs arbitrary: w)
  case Nil
  then show ?case by simp
next
  case (Cons x xs)
  have "sorted (LastUseTime (meta (applyOp x w)) # map opTime xs)"
    using Cons.prems by (simp add: LastUseTime_applyOp)
  then have "sorted (map (\<lambda>s. LastUseTime (meta s)) (states xs (applyOp x w)))"
    by (rule Cons.IH)
  moreover have "LastUseTime (meta w) \<le> LastUseTime (meta (applyOp x w))"
    using Cons.prems by (simp add: LastUseTime_applyOp)
  ultimately show ?case
    by (intro sorted_states_step)
qed

lemma states_UsedTimes:
  "counterFits xs w \<Longrightarrow> sorted (map (\<lambda>s. unat (UsedTimes (meta s))) (states xs w))"
proof (induction xs w rule: counterFits.induct)
  case (1 w)
  then show ?case by simp
next
  case (2 t xs w)
  then have "unat (UsedTimes (meta w)) \<le> unat (UsedTimes (meta (applyOp (MarkUsing t) w)))"
    by (simp add: PEMarkUsing_def unat_Suc64)
  moreover have "sorted (map (\<lambda>s. unat (UsedTimes (meta s))) (states xs (applyOp (MarkUsing t) w)))"
    using 2 by simp
  ultimately show ?case
    by (intro sorted_states_step)
next
  case (3 t xs w)
  then have "sorted (map (\<lambda>s. unat (UsedTimes (meta s))) (states xs (applyOp (MarkIdle t) w)))"
    by simp
  moreover have "unat (UsedTimes (meta w)) \<le> unat (UsedTimes (meta (applyOp (MarkIdle t) w)))"
    by (simp add: PEMarkIdle_def)
  ultimately show ?case
    by (intro sorted_states_step)
qed

lemma states_UsedDuration:
  "sorted (LastUseTime (meta w) # map opTime xs) \<Longrightarrow> durationFits xs w \<Longrightarrow>
   sorted (map (\<lambda>s. sint (UsedDuration (meta s))) (states xs w))"
proof (induction xs w rule: durationFits.induct)
  case (1 w)
  then show ?case by simp
next
  case (2 t xs w)
  have "sorted (LastUseTime (meta (PEMarkUsing t w)) # map opTime xs)"
    using "2.prems"(1) by (simp add: PEMarkUsing_def)
  then have "sorted (map (\<lambda>s. sint (UsedDuration (meta s))) (states xs (applyOp (MarkUsing t) w)))"
    using 2 by simp
  moreover have "sint (UsedDuration (meta w)) \<le> sint (UsedDuration (meta (applyOp (MarkUsing t) w)))"
    by (simp add: PEMarkUsing_def)
  ultimately show ?case
    by (intro sorted_states_step)
next
  case (3 t xs w)
  let ?d = "Sub t (LastUseTime (meta w))"
  have le: "LastUseTime (meta w) \<le> t"
    using "3.prems"(1) by simp
  then have nonneg: "0 \<le> sint ?d"
    by (simp add: sint_Sub max_def min_def minDuration_def maxDuration_def)
  have fits: "sint (UsedDuration (meta w)) + sint ?d \<le> maxDuration"
    using "3.prems"(2) by simp
  have lower: "- (2 ^ 63) \<le> sint (UsedDuration (meta w))"
    using sint_ge [of "UsedDuration (meta w)"] by simp
  have "sint (UsedDuration (meta w) + ?d) = sint (UsedDuration (meta w)) + sint ?d"
    using nonneg fits lower by (intro sint_add64) (simp_all add: maxDuration_def)
  then have "sint (UsedDuration (meta w)) \<le> sint (UsedDuration (meta (applyOp (MarkIdle t) w)))"
    using nonneg by (simp add: PEMarkIdle_def)
  moreover have "sorted (LastUseTime (meta (PEMarkIdle t w)) # map opTime xs)"
    using "3.prems"(1) by (simp add: PEMarkIdle_def)
  then have "sorted (map (\<lambda>s. sint (UsedDuration (meta s))) (states xs (applyOp (MarkIdle t) w)))"
    using 3 by simp
  ultimately show ?case
    by (intro sorted_states_step)
qed


lemma Since_ge_iff:
  "0 < sint d \<Longrightarrow> (d \<le>s Since now t) = (sint d \<le> now - t)"
proof -
  assume pos: "0 < sint d"
  have "sint d \<le> maxDuration"
    using sint_lt [of d] by (simp add: maxDuration_def)
  with pos show ?thesis
    by (auto simp: word_sle_eq Since_def sint_Sub minDuration_def maxDuration_def max_def min_def)
qed

lemma Active_idle_iff:
  "(Active w opt now1 now2 = Some ErrOutOfMaxIdleTime) =
     (0 < sint (MaxIdleTime opt) \<and> sint (MaxIdleTime opt) \<le> now1 - LastUseTime (meta w))"
  by (auto simp: Active_def Let_def word_sless_alt Since_ge_iff)

lemma Active_life_iff:
  "(Active w opt now1 now2 = Some ErrOutOfMaxLife) =
     (Active w opt now1 now2 \<noteq> Some ErrOutOfMaxIdleTime \<and>
      0 < sint (MaxLifeTime opt) \<and> sint (MaxLifeTime opt) \<le> now2 - CreateTime (meta w))"
  by (auto simp: Active_def Let_def word_sless_alt Since_ge_iff)

lemma Active_cases:
  "Active w opt now1 now2 = None \<or> Active w opt now1 now2 = Some ErrOutOfMaxIdleTime \<or>
   Active w opt now1 now2 = Some ErrOutOfMaxLife"
  by (simp add: Active_def Let_def)

text \<open>
  Claim C4. \<^verbatim>\<open>Active\<close> returns \<^verbatim>\<open>ErrOutOfMaxIdleTime\<close> exactly when \<^verbatim>\<open>MaxIdleTime\<close> is
  positive and the time elapsed since \<^verbatim>\<open>LastUseTime\<close> (at the first clock reading) has
  reached it; otherwise \<^verbatim>\<open>ErrOutOfMaxLife\<close> exactly when \<^verbatim>\<open>MaxLifeTime\<close> is positive and
  the time elapsed since \<^verbatim>\<open>CreateTime\<close> (at the second reading) has reached it; otherwise
  \<^verbatim>\<open>nil\<close>. A zero bound switches its check off, and the idle check comes first. The
  elapsed times are the exact integer differences: the saturation of \<^verbatim>\<open>Sub\<close> does not
  change the outcome of a comparison with a positive \<^verbatim>\<open>int64\<close>.
\<close>
theorem Active_eviction:
  "(Active w opt now1 now2 = Some ErrOutOfMaxIdleTime) =
     (0 < sint (MaxIdleTime opt) \<and> sint (MaxIdleTime opt) \<le> now1 - LastUseTime (meta w))
   \<and> (Active w opt now1 now2 = Some ErrOutOfMaxLife) =
     (Active w opt now1 now2 \<noteq> Some ErrOutOfMaxIdleTime \<and>
      0 < sint (MaxLifeTime opt) \<and> sint (MaxLifeTime opt) \<le> now2 - CreateTime (meta w))
   \<and> (Active w opt now1 now2 = None) =
     (Active w opt now1 now2 \<noteq> Some ErrOutOfMaxIdleTime \<and>
      Active w opt now1 now2 \<noteq> Some ErrOutOfMaxLife)
   \<and> Active w (opt\<lparr>MaxIdleTime := 0\<rparr>) now1 now2 \<noteq> Some ErrOutOfMaxIdleTime
   \<and> Active w (opt\<lparr>MaxLifeTime := 0\<rparr>) now1 now2 \<noteq> Some ErrOutOfMaxLife"
proof -
  have z1: "Active w (opt\<lparr>MaxIdleTime := 0\<rparr>) now1 now2 \<noteq> Some ErrOutOfMaxIdleTime"
    by (simp add: Active_idle_iff)
  have z2: "Active w (opt\<lparr>MaxLifeTime := 0\<rparr>) now1 now2 \<noteq> Some ErrOutOfMaxLife"
    by (simp add: Active_life_iff)
  have n: "(Active w opt now1 now2 = None) =
     (Active w opt now1 now2 \<noteq> Some ErrOutOfMaxIdleTime \<and>
      Active w opt now1 now2 \<noteq> Some ErrOutOfMaxLife)"
    using Active_cases [of w opt now1 now2] by auto
  show ?thesis
    using Active_idle_iff [of w opt now1 now2] Active_life_iff [of w opt now1 now2] n z1 z2
    by blast
qed

theorem Active_eviction_witness:
  "Active (NewMetaInfo 100) \<lparr>MaxIdleTime = 50, MaxLifeTime = 0\<rparr> 160 161 = Some ErrOutOfMaxIdleTime
   \<and> Active (PEMarkUsing 150 (NewMetaInfo 100)) \<lparr>MaxIdleTime = 50, MaxLifeTime = 60\<rparr> 160 161
       = Some ErrOutOfMaxLife
   \<and> Active (PEMarkUsing 150 (NewMetaInfo 100)) \<lparr>MaxIdleTime = 0, MaxLifeTime = 0\<rparr> 160 161 = None"
  using Active_eviction [of "NewMetaInfo 100" "\<lparr>MaxIdleTime = 50, MaxLifeTime = 0\<rparr>" 160 161]
    Active_eviction [of "PEMarkUsing 150 (NewMetaInfo 100)" "\<lparr>MaxIdleTime = 50, MaxLifeTime = 60\<rparr>" 160 161]
    Active_eviction [of "PEMarkUsing 150 (NewMetaInfo 100)" "\<lparr>MaxIdleTime = 0, MaxLifeTime = 0\<rparr>" 160 161]
  by (simp add: NewMetaInfo_def PEMarkUsing_def zeroTime_def)

text \<open>
  Claim C5. \<^verbatim>\<open>PEMarkUsing\<close> sets \<^verbatim>\<open>using\<close>, stamps \<^verbatim>\<open>LastUseTime\<close> and adds one to
  \<^verbatim>\<open>UsedTimes\<close>; \<^verbatim>\<open>PEMarkIdle\<close> adds the time elapsed since \<^verbatim>\<open>LastUseTime\<close> to
  \<^verbatim>\<open>UsedDuration\<close>, stamps \<^verbatim>\<open>LastUseTime\<close> and clears \<^verbatim>\<open>using\<close>. After the \<open>k\<close> complete
  cycles \<open>cs\<close> on a fresh \<open>MetaInfo\<close>, \<^verbatim>\<open>UsedTimes\<close> is \<open>k\<close> and \<^verbatim>\<open>UsedDuration\<close> is the
  sum of the \<open>k\<close> durations, as values of the fields' own types (\<^verbatim>\<open>uint64\<close> and
  \<^verbatim>\<open>time.Duration\<close>); read as integers they are \<open>k\<close> and the sum of the differences of the
  clock readings whenever these fit the types.
\<close>
theorem mark_cycles:
  "using' (PEMarkUsing now w) \<and> LastUseTime (meta (PEMarkUsing now w)) = now
   \<and> UsedTimes (meta (PEMarkUsing now w)) = UsedTimes (meta w) + 1
   \<and> UsedDuration (meta (PEMarkUsing now w)) = UsedDuration (meta w)
   \<and> CreateTime (meta (PEMarkUsing now w)) = CreateTime (meta w)
   \<and> \<not> using' (PEMarkIdle now w) \<and> LastUseTime (meta (PEMarkIdle now w)) = now
   \<and> UsedDuration (meta (PEMarkIdle now w)) = UsedDuration (meta w) + Sub now (LastUseTime (meta w))
   \<and> UsedTimes (meta (PEMarkIdle now w)) = UsedTimes (meta w)
   \<and> CreateTime (meta (PEMarkIdle now w)) = CreateTime (meta w)
   \<and> UsedTimes (meta (cycles cs (NewMetaInfo t0))) = of_nat (length cs)
   \<and> UsedDuration (meta (cycles cs (NewMetaInfo t0))) = (\<Sum>(tu, ti)\<leftarrow>cs. Sub ti tu)
   \<and> (length cs < 2 ^ 64 \<longrightarrow> unat (UsedTimes (meta (cycles cs (NewMetaInfo t0)))) = length cs)
   \<and> ((\<forall>(tu, ti)\<in>set cs. tu \<le> ti) \<and> (\<Sum>(tu, ti)\<leftarrow>cs. ti - tu) \<le> maxDuration \<longrightarrow>
        sint (UsedDuration (meta (cycles cs (NewMetaInfo t0)))) = (\<Sum>(tu, ti)\<leftarrow>cs. ti - tu))"
proof -
  have steps: "using' (PEMarkUsing now w) \<and> LastUseTime (meta (PEMarkUsing now w)) = now
   \<and> UsedTimes (meta (PEMarkUsing now w)) = UsedTimes (meta w) + 1
   \<and> UsedDuration (meta (PEMarkUsing now w)) = UsedDuration (meta w)
   \<and> CreateTime (meta (PEMarkUsing now w)) = CreateTime (meta w)
   \<and> \<not> using' (PEMarkIdle now w) \<and> LastUseTime (meta (PEMarkIdle now w)) = now
   \<and> UsedDuration (meta (PEMarkIdle now w)) = UsedDuration (meta w) + Sub now (LastUseTime (meta w))
   \<and> UsedTimes (meta (PEMarkIdle now w)) = UsedTimes (meta w)
   \<and> CreateTime (meta (PEMarkIdle now w)) = CreateTime (meta w)"
    by (simp add: PEMarkUsing_def PEMarkIdle_def)
  have times: "UsedTimes (meta (cycles cs (NewMetaInfo t0))) = of_nat (length cs)"
    by (simp add: cycles_UsedTimes NewMetaInfo_def)
  have dur: "UsedDuration (meta (cycles cs (NewMetaInfo t0))) = (\<Sum>(tu, ti)\<leftarrow>cs. Sub ti tu)"
    by (simp add: cycles_UsedDuration NewMetaInfo_def)
  have utimes: "unat (UsedTimes (meta (cycles cs (NewMetaInfo t0)))) = length cs"
    if "length cs < 2 ^ 64"
    using that by (simp add: times unat_of_nat)
  have udur: "sint (UsedDuration (meta (cycles cs (NewMetaInfo t0)))) = (\<Sum>(tu, ti)\<leftarrow>cs. ti - tu)"
    if "\<forall>(tu, ti)\<in>set cs. tu \<le> ti" "(\<Sum>(tu, ti)\<leftarrow>cs. ti - tu) \<le> maxDuration"
    using cycles_sint [of cs "NewMetaInfo t0"] that by (simp add: NewMetaInfo_def)
  show ?thesis
    using steps times dur utimes udur by blast
qed

theorem mark_cycles_witness:
  "length [(10 :: Time, 25 :: Time), (30, 37)] < 2 ^ 64
   \<and> (10 :: Time) \<le> 25 \<and> (30 :: Time) \<le> 37
   \<and> (\<Sum>(tu, ti)\<leftarrow>[(10 :: Time, 25 :: Time), (30, 37)]. ti - tu) \<le> maxDuration
   \<and> unat (UsedTimes (meta (cycles [(10, 25), (30, 37)] (NewMetaInfo 5)))) = 2
   \<and> sint (UsedDuration (meta (cycles [(10, 25), (30, 37)] (NewMetaInfo 5)))) = 22"
proof -
  let ?cs = "[(10 :: Time, 25 :: Time), (30, 37)]"
  have h1: "length ?cs < 2 ^ 64"
    by simp
  have h2: "\<forall>(tu, ti)\<in>set ?cs. tu \<le> ti"
    by simp
  have h3: "(\<Sum>(tu, ti)\<leftarrow>?cs. ti - tu) \<le> maxDuration"
    by (simp add: maxDuration_def)
  have "unat (UsedTimes (meta (cycles ?cs (NewMetaInfo 5)))) = length ?cs
    \<and> sint (UsedDuration (meta (cycles ?cs (NewMetaInfo 5)))) = (\<Sum>(tu, ti)\<leftarrow>?cs. ti - tu)"
    using mark_cycles [of 0 "NewMetaInfo 5" ?cs 5] h1 h2 h3 by blast
  then have "unat (UsedTimes (meta (cycles ?cs (NewMetaInfo 5)))) = 2
    \<and> sint (UsedDuration (meta (cycles ?cs (NewMetaInfo 5)))) = 22"
    by (simp del: cycles.simps)
  with h1 h3 show ?thesis
    by simp
qed


text \<open>
  Claim C6, amended. Along every sequence of \<^verbatim>\<open>PEMarkUsing\<close> and \<^verbatim>\<open>PEMarkIdle\<close> calls:
  \<^verbatim>\<open>CreateTime\<close> is the reading taken by \<^verbatim>\<open>NewMetaInfo\<close> and never changes;
  \<^verbatim>\<open>LastUseTime\<close> never decreases when the clock readings do not decrease (starting at
  the current \<^verbatim>\<open>LastUseTime\<close>); \<^verbatim>\<open>UsedTimes\<close> never decreases as long as the \<^verbatim>\<open>uint64\<close>
  counter does not overflow; \<^verbatim>\<open>UsedDuration\<close> never decreases when the clock readings do
  not decrease and the \<^verbatim>\<open>int64\<close> sum does not overflow.
\<close>
theorem meta_monotone:
  "(sorted (LastUseTime (meta w) # map opTime xs) \<longrightarrow>
      sorted (map (\<lambda>s. LastUseTime (meta s)) (states xs w)))
   \<and> (\<forall>s\<in>set (states xs w). CreateTime (meta s) = CreateTime (meta w))
   \<and> CreateTime (meta (NewMetaInfo t0)) = t0
   \<and> (counterFits xs w \<longrightarrow> sorted (map (\<lambda>s. unat (UsedTimes (meta s))) (states xs w)))
   \<and> (sorted (LastUseTime (meta w) # map opTime xs) \<and> durationFits xs w \<longrightarrow>
      sorted (map (\<lambda>s. sint (UsedDuration (meta s))) (states xs w)))"
proof -
  have "CreateTime (meta (NewMetaInfo t0)) = t0"
    by (simp add: NewMetaInfo_def)
  then show ?thesis
    using states_LastUseTime [of w xs] states_CreateTime [of _ xs w]
      states_UsedTimes [of xs w] states_UsedDuration [of w xs]
    by blast
qed

theorem meta_monotone_witness:
  "sorted (LastUseTime (meta (NewMetaInfo 5)) # map opTime [MarkUsing 10, MarkIdle 25, MarkUsing 30])
   \<and> counterFits [MarkUsing 10, MarkIdle 25, MarkUsing 30] (NewMetaInfo 5)
   \<and> durationFits [MarkUsing 10, MarkIdle 25, MarkUsing 30] (NewMetaInfo 5)
   \<and> sorted (map (\<lambda>s. LastUseTime (meta s)) (states [MarkUsing 10, MarkIdle 25, MarkUsing 30] (NewMetaInfo 5)))
   \<and> map (\<lambda>s. CreateTime (meta s)) (states [MarkUsing 10, MarkIdle 25, MarkUsing 30] (NewMetaInfo 5))
       = [5, 5, 5, 5]
   \<and> sorted (map (\<lambda>s. unat (UsedTimes (meta s))) (states [MarkUsing 10, MarkIdle 25, MarkUsing 30] (NewMetaInfo 5)))
   \<and> sorted (map (\<lambda>s. sint (UsedDuration (meta s))) (states [MarkUsing 10, MarkIdle 25, MarkUsing 30] (NewMetaInfo 5)))"
proof -
  let ?xs = "[MarkUsing 10, MarkIdle 25, MarkUsing 30]"
  let ?w = "NewMetaInfo 5"
  have h1: "sorted (LastUseTime (meta ?w) # map opTime ?xs)"
    by (simp add: NewMetaInfo_def zeroTime_def)
  have h2: "counterFits ?xs ?w"
    by (simp add: NewMetaInfo_def PEMarkUsing_def PEMarkIdle_def)
  have h3: "durationFits ?xs ?w"
    by (simp add: NewMetaInfo_def PEMarkUsing_def PEMarkIdle_def Sub_def zeroTime_def
        maxDuration_def minDuration_def)
  have c: "CreateTime (meta ?w) = 5"
    by (simp add: NewMetaInfo_def)
  show ?thesis
    using meta_monotone [of ?w ?xs 5] h1 h2 h3 c by simp
qed

theorem meta_monotone_counterexample:
  "sorted (LastUseTime (meta (NewMetaInfo 63745056000000000000)) #
      map opTime [MarkIdle 63745056000000000000, MarkUsing 63745056000000000000,
                  MarkIdle 63745056000000000001])
   \<and> sint (UsedDuration (meta (states
        [MarkIdle 63745056000000000000, MarkUsing 63745056000000000000,
         MarkIdle 63745056000000000001] (NewMetaInfo 63745056000000000000) ! 3)))
     < sint (UsedDuration (meta (states
        [MarkIdle 63745056000000000000, MarkUsing 63745056000000000000,
         MarkIdle 63745056000000000001] (NewMetaInfo 63745056000000000000) ! 2)))"
  by (simp add: NewMetaInfo_def PEMarkUsing_def PEMarkIdle_def Sub_def zeroTime_def
      maxDuration_def minDuration_def)

subsection \<open>Connection adapter\<close>

lemma set_fields [simp]:
  "lastErr (set_lastErr e c) = e" "raw (set_lastErr e c) = raw c"
  "readStat (set_lastErr e c) = readStat c" "writeStat (set_lastErr e c) = writeStat c"
  "metaInfo (set_lastErr e c) = metaInfo c" "pool (set_lastErr e c) = pool c"
  "lastErr (set_readStat s c) = lastErr c" "raw (set_readStat s c) = raw c"
  "readStat (set_readStat s c) = s" "writeStat (set_readStat s c) = writeStat c"
  "metaInfo (set_readStat s c) = metaInfo c" "pool (set_readStat s c) = pool c"
  "lastErr (set_writeStat s c) = lastErr c" "raw (set_writeStat s c) = raw c"
  "readStat (set_writeStat s c) = readStat c" "writeStat (set_writeStat s c) = s"
  "metaInfo (set_writeStat s c) = metaInfo c" "pool (set_writeStat s c) = pool c"
  by (cases c; simp)+

lemma setErr_fields [simp]:
  "lastErr (setErr err c) = (if err \<noteq> None then err else lastErr c)"
  "raw (setErr err c) = raw c" "readStat (setErr err c) = readStat c"
  "writeStat (setErr err c) = writeStat c" "metaInfo (setErr err c) = metaInfo c"
  "pool (setErr err c) = pool c"
  by (simp_all add: setErr_def)

lemma Read_fields:
  "lastErr (fst (Read err c)) = (if err \<noteq> None then err else lastErr c)"
  "raw (fst (Read err c)) = invoke CallRead err (raw c)"
  "readStat (fst (Read err c)) = statDone"
  "writeStat (fst (Read err c)) = writeStat c"
  "snd (Read err c) = err"
  by (cases c; simp add: Let_def)+

lemma Write_fields:
  "lastErr (fst (Write err c)) = (if err \<noteq> None then err else lastErr c)"
  "raw (fst (Write err c)) = invoke CallWrite err (raw c)"
  "readStat (fst (Write err c)) = readStat c"
  "writeStat (fst (Write err c)) = statDone"
  "snd (Write err c) = err"
  by (cases c; simp add: Let_def)+

lemma SetDeadline_fields:
  "lastErr (fst (SetDeadline t err c)) = (if err \<noteq> None then err else lastErr c)"
  "raw (fst (SetDeadline t err c)) = invoke (CallSetDeadline t) err (raw c)"
  "readStat (fst (SetDeadline t err c)) = readStat c"
  "writeStat (fst (SetDeadline t err c)) = writeStat c"
  "snd (SetDeadline t err c) = err"
  by (cases c; simp add: Let_def)+

lemma SetReadDeadline_fields:
  "lastErr (fst (SetReadDeadline t err c)) = (if err \<noteq> None then err else lastErr c)"
  "raw (fst (SetReadDeadline t err c)) = invoke (CallSetReadDeadline t) err (raw c)"
  "readStat (fst (SetReadDeadline t err c)) = readStat c"
  "writeStat (fst (SetReadDeadline t err c)) = writeStat c"
  "snd (SetReadDeadline t err c) = err"
  by (cases c; simp add: Let_def)+

lemma SetWriteDeadline_fields:
  "lastErr (fst (SetWriteDeadline t err c)) = (if err \<noteq> None then err else lastErr c)"
  "raw (fst (SetWriteDeadline t err c)) = invoke (CallSetWriteDeadline t) err (raw c)"
  "readStat (fst (SetWriteDeadline t err c)) = readStat c"
  "writeStat (fst (SetWriteDeadline t err c)) = writeStat c"
  "snd (SetWriteDeadline t err c) = err"
  by (cases c; simp add: Let_def)+

lemmas io_fields =
  Read_fields Write_fields SetDeadline_fields SetReadDeadline_fields SetWriteDeadline_fields

lemma received_Adapter: "received (Adapter p) = received (raw p)"
  by (cases p) simp

lemma received_invoke:
  "received (invoke cl err r) = received r @ [cl]"
  and received_invoke_raw: "received (invoke cl err (raw p)) = received (raw p) @ [cl]"
proof (induction r and p arbitrary: cl err and cl err)
  case (Socket i a cs)
  then show ?case by simp
next
  case (Custom i a r cs)
  then show ?case by simp
next
  case (Adapter p)
  show ?case
    by (cases cl) (simp_all add: received_Adapter io_fields Adapter.IH)
next
  case (PConn m p r e rs ws)
  then show ?case by simp
qed

lemma PEReset_fields:
  "readStat (PEReset e1 e2 e3 c) = statInit"
  "writeStat (PEReset e1 e2 e3 c) = statInit"
  "lastErr (PEReset e1 e2 e3 c) =
     (if e3 \<noteq> None then e3 else if e2 \<noteq> None then e2 else if e1 \<noteq> None then e1 else lastErr c)"
  "raw (PEReset e1 e2 e3 c) =
     invoke (CallSetWriteDeadline zeroTime) e3
       (invoke (CallSetReadDeadline zeroTime) e2 (invoke (CallSetDeadline zeroTime) e1 (raw c)))"
  by (simp_all add: PEReset_def Let_def io_fields)

lemma getRawConn_cases:
  "getRawConn c =
     (case raw c of Socket i a cs \<Rightarrow> raw c | Custom i a r cs \<Rightarrow> r | Adapter p \<Rightarrow> raw p)"
  by (simp add: getRawConn_def Raw_def split: conn.splits)

lemma PEActive_unfold:
  "PEActive connCheck clk d c =
     (if lastErr c \<noteq> None \<or> isDoing c then Some ErrBadValue
      else case Active (metaInfo c) (Option (pool c)) (fst (clk d)) (snd (clk d)) of
        Some ea \<Rightarrow> Some ea
      | None \<Rightarrow>
          (case conn_PEActive connCheck clk (Suc d) (raw c) of
            Some (Some ea) \<Rightarrow> Some ea
          | _ \<Rightarrow> connCheck (getRawConn c)))"
  by (cases c) (hypsubst, simp add: isDoing_def cong: option.case_cong)

text \<open>
  Claim C1. \<^verbatim>\<open>PEActive\<close> returns \<^verbatim>\<open>ErrBadValue\<close> whenever a last error is recorded or a
  marker is at \<^verbatim>\<open>statStart\<close>. Otherwise it returns the error of the first failing check
  among, in this order, \<^verbatim>\<open>Active\<close> with the pool's \<^verbatim>\<open>Option\<close>, the \<^verbatim>\<open>PEActive\<close> of the raw
  connection when it has one (for a raw connection that is an adapter, that adapter's own
  \<^verbatim>\<open>PEActive\<close>), and the liveness probe on \<open>getRawConn\<close>, which is the raw connection
  unwrapped by one level: the raw connection itself when it has no \<^verbatim>\<open>Raw\<close> method, else
  what its \<^verbatim>\<open>Raw\<close> returns (for an adapter, that adapter's raw connection). It returns
  \<^verbatim>\<open>nil\<close> only when every applicable check passes.
\<close>

theorem PEActive_checks:
  "(lastErr c \<noteq> None \<or> readStat c = statStart \<or> writeStat c = statStart \<longrightarrow>
      PEActive connCheck clk d c = Some ErrBadValue)
   \<and> (lastErr c = None \<and> readStat c \<noteq> statStart \<and> writeStat c \<noteq> statStart \<longrightarrow>
        (\<forall>ea. Active (metaInfo c) (Option (pool c)) (fst (clk d)) (snd (clk d)) = Some ea \<longrightarrow>
           PEActive connCheck clk d c = Some ea)
      \<and> (Active (metaInfo c) (Option (pool c)) (fst (clk d)) (snd (clk d)) = None \<longrightarrow>
           (\<forall>ea. conn_PEActive connCheck clk (Suc d) (raw c) = Some (Some ea) \<longrightarrow>
              PEActive connCheck clk d c = Some ea)
         \<and> (conn_PEActive connCheck clk (Suc d) (raw c) = None \<or>
             conn_PEActive connCheck clk (Suc d) (raw c) = Some None \<longrightarrow>
              PEActive connCheck clk d c = connCheck (getRawConn c))))
   \<and> (PEActive connCheck clk d c = None) =
       (lastErr c = None \<and> readStat c \<noteq> statStart \<and> writeStat c \<noteq> statStart
        \<and> Active (metaInfo c) (Option (pool c)) (fst (clk d)) (snd (clk d)) = None
        \<and> (conn_PEActive connCheck clk (Suc d) (raw c) = None \<or>
           conn_PEActive connCheck clk (Suc d) (raw c) = Some None)
        \<and> connCheck (getRawConn c) = None)
   \<and> conn_PEActive connCheck clk (Suc d) (Adapter p) = Some (PEActive connCheck clk (Suc d) p)
   \<and> conn_PEActive connCheck clk (Suc d) (Socket i a cs) = a
   \<and> conn_PEActive connCheck clk (Suc d) (Custom i a r cs) = a
   \<and> getRawConn c =
       (case raw c of Socket j b ds \<Rightarrow> raw c | Custom j b r' ds \<Rightarrow> r' | Adapter q \<Rightarrow> raw q)
   \<and> getRawConn (PConn m pl (Socket i a cs) e rs ws) = Socket i a cs
   \<and> getRawConn (PConn m pl (Custom i a r cs) e rs ws) = r
   \<and> getRawConn (PConn m pl (Adapter p) e rs ws) = raw p"
proof -
  have checks: "(lastErr c \<noteq> None \<or> readStat c = statStart \<or> writeStat c = statStart \<longrightarrow>
      PEActive connCheck clk d c = Some ErrBadValue)
   \<and> (lastErr c = None \<and> readStat c \<noteq> statStart \<and> writeStat c \<noteq> statStart \<longrightarrow>
        (\<forall>ea. Active (metaInfo c) (Option (pool c)) (fst (clk d)) (snd (clk d)) = Some ea \<longrightarrow>
           PEActive connCheck clk d c = Some ea)
      \<and> (Active (metaInfo c) (Option (pool c)) (fst (clk d)) (snd (clk d)) = None \<longrightarrow>
           (\<forall>ea. conn_PEActive connCheck clk (Suc d) (raw c) = Some (Some ea) \<longrightarrow>
              PEActive connCheck clk d c = Some ea)
         \<and> (conn_PEActive connCheck clk (Suc d) (raw c) = None \<or>
             conn_PEActive connCheck clk (Suc d) (raw c) = Some None \<longrightarrow>
              PEActive connCheck clk d c = connCheck (getRawConn c))))
   \<and> (PEActive connCheck clk d c = None) =
       (lastErr c = None \<and> readStat c \<noteq> statStart \<and> writeStat c \<noteq> statStart
        \<and> Active (metaInfo c) (Option (pool c)) (fst (clk d)) (snd (clk d)) = None
        \<and> (conn_PEActive connCheck clk (Suc d) (raw c) = None \<or>
           conn_PEActive connCheck clk (Suc d) (raw c) = Some None)
        \<and> connCheck (getRawConn c) = None)
   \<and> conn_PEActive connCheck clk (Suc d) (Adapter p) = Some (PEActive connCheck clk (Suc d) p)
   \<and> conn_PEActive connCheck clk (Suc d) (Socket i a cs) = a
   \<and> conn_PEActive connCheck clk (Suc d) (Custom i a r cs) = a"
    by (auto simp: PEActive_unfold isDoing_def split: option.splits)
  have target: "getRawConn c =
       (case raw c of Socket j b ds \<Rightarrow> raw c | Custom j b r' ds \<Rightarrow> r' | Adapter q \<Rightarrow> raw q)"
    by (rule getRawConn_cases)
  have targets: "getRawConn (PConn m pl (Socket i a cs) e rs ws) = Socket i a cs
   \<and> getRawConn (PConn m pl (Custom i a r cs) e rs ws) = r
   \<and> getRawConn (PConn m pl (Adapter p) e rs ws) = raw p"
    by (simp add: getRawConn_cases)
  from checks target targets show ?thesis
    by (intro conjI) (elim conjE, assumption)+
qed

theorem PEActive_checks_witness:
  "PEActive (\<lambda>_. None) (\<lambda>_. (100, 100)) 0
     (set_lastErr (Some (OtherError 1))
       (newPConn 10 (Socket 0 None []) \<lparr>Option = \<lparr>MaxIdleTime = 50, MaxLifeTime = 0\<rparr>\<rparr>))
     = Some ErrBadValue
   \<and> PEActive (\<lambda>_. None) (\<lambda>_. (100, 100)) 0
     (newPConn 10 (Socket 0 None []) \<lparr>Option = \<lparr>MaxIdleTime = 50, MaxLifeTime = 0\<rparr>\<rparr>)
     = Some ErrOutOfMaxIdleTime
   \<and> PEActive (\<lambda>_. None) (\<lambda>_. (100, 100)) 0
     (newPConn 10 (Socket 0 (Some (Some (OtherError 2))) [])
       \<lparr>Option = \<lparr>MaxIdleTime = 0, MaxLifeTime = 0\<rparr>\<rparr>)
     = Some (OtherError 2)
   \<and> PEActive (\<lambda>_. Some (OtherError 3)) (\<lambda>_. (100, 100)) 0
     (newPConn 10 (Socket 0 (Some None) []) \<lparr>Option = \<lparr>MaxIdleTime = 0, MaxLifeTime = 0\<rparr>\<rparr>)
     = Some (OtherError 3)
   \<and> PEActive (\<lambda>_. None) (\<lambda>_. (100, 100)) 0
     (newPConn 10 (Socket 0 None []) \<lparr>Option = \<lparr>MaxIdleTime = 0, MaxLifeTime = 0\<rparr>\<rparr>)
     = None
   \<and> PEActive (\<lambda>r. if r = Socket 7 None [] then Some (OtherError 3) else None) (\<lambda>_. (100, 100)) 0
     (newPConn 10 (Custom 1 None (Socket 7 None []) [])
       \<lparr>Option = \<lparr>MaxIdleTime = 0, MaxLifeTime = 0\<rparr>\<rparr>)
     = Some (OtherError 3)
   \<and> PEActive (\<lambda>r. if r = Custom 1 None (Socket 7 None []) [] then Some (OtherError 4) else None)
       (\<lambda>_. (100, 100)) 0
     (newPConn 10 (Custom 1 None (Socket 7 None []) [])
       \<lparr>Option = \<lparr>MaxIdleTime = 0, MaxLifeTime = 0\<rparr>\<rparr>)
     = None
   \<and> PEActive (\<lambda>r. if r = Custom 1 None (Socket 7 None []) [] then Some (OtherError 4) else None)
       (\<lambda>_. (100, 100)) 0
     (newPConn 10
       (Adapter (newPConn 9 (Custom 1 None (Socket 7 None []) [])
         \<lparr>Option = \<lparr>MaxIdleTime = 0, MaxLifeTime = 0\<rparr>\<rparr>))
       \<lparr>Option = \<lparr>MaxIdleTime = 0, MaxLifeTime = 0\<rparr>\<rparr>)
     = Some (OtherError 4)"
proof -
  let ?bounded = "\<lparr>Option = \<lparr>MaxIdleTime = 50, MaxLifeTime = 0\<rparr>\<rparr>"
  let ?free = "\<lparr>Option = \<lparr>MaxIdleTime = 0, MaxLifeTime = 0\<rparr>\<rparr>"
  let ?clk = "\<lambda>_ :: nat. (100 :: Time, 100 :: Time)"
  have idle: "Active (NewMetaInfo 10) \<lparr>MaxIdleTime = 50, MaxLifeTime = 0\<rparr> 100 100
      = Some ErrOutOfMaxIdleTime"
    by (simp add: Active_idle_iff NewMetaInfo_def zeroTime_def)
  have free: "Active (NewMetaInfo 10) \<lparr>MaxIdleTime = 0, MaxLifeTime = 0\<rparr> 100 100 = None"
    using Active_cases [of "NewMetaInfo 10" "\<lparr>MaxIdleTime = 0, MaxLifeTime = 0\<rparr>" 100 100]
    by (simp add: Active_idle_iff Active_life_iff)
  have 1: "PEActive (\<lambda>_. None) ?clk 0
      (set_lastErr (Some (OtherError 1)) (newPConn 10 (Socket 0 None []) ?bounded))
      = Some ErrBadValue"
    using PEActive_checks [of "set_lastErr (Some (OtherError 1)) (newPConn 10 (Socket 0 None []) ?bounded)"
        "\<lambda>_. None" ?clk 0]
    by (simp add: newPConn_def)
  have 2: "PEActive (\<lambda>_. None) ?clk 0 (newPConn 10 (Socket 0 None []) ?bounded)
      = Some ErrOutOfMaxIdleTime"
    using PEActive_checks [of "newPConn 10 (Socket 0 None []) ?bounded" "\<lambda>_. None" ?clk 0] idle
    by (simp add: newPConn_def statStart_def)
  have 3: "PEActive (\<lambda>_. None) ?clk 0 (newPConn 10 (Socket 0 (Some (Some (OtherError 2))) []) ?free)
      = Some (OtherError 2)"
    using PEActive_checks [of "newPConn 10 (Socket 0 (Some (Some (OtherError 2))) []) ?free"
        "\<lambda>_. None" ?clk 0] free
    by (simp add: newPConn_def statStart_def)
  have 4: "PEActive (\<lambda>_. Some (OtherError 3)) ?clk 0 (newPConn 10 (Socket 0 (Some None) []) ?free)
      = Some (OtherError 3)"
    using PEActive_checks [of "newPConn 10 (Socket 0 (Some None) []) ?free"
        "\<lambda>_. Some (OtherError 3)" ?clk 0] free
    by (simp add: newPConn_def statStart_def)
  have 5: "PEActive (\<lambda>_. None) ?clk 0 (newPConn 10 (Socket 0 None []) ?free) = None"
    using PEActive_checks [of "newPConn 10 (Socket 0 None []) ?free" "\<lambda>_. None" ?clk 0] free
    by (simp add: newPConn_def statStart_def)
  let ?inner = "Socket 7 None []"
  let ?wrap = "Custom 1 None ?inner []"
  let ?onInner = "\<lambda>r. if r = ?inner then Some (OtherError 3) else None"
  let ?onWrap = "\<lambda>r. if r = ?wrap then Some (OtherError 4) else None"
  have free9: "Active (NewMetaInfo 9) \<lparr>MaxIdleTime = 0, MaxLifeTime = 0\<rparr> 100 100 = None"
    using Active_cases [of "NewMetaInfo 9" "\<lparr>MaxIdleTime = 0, MaxLifeTime = 0\<rparr>" 100 100]
    by (simp add: Active_idle_iff Active_life_iff)
  have 6: "PEActive ?onInner ?clk 0 (newPConn 10 ?wrap ?free) = Some (OtherError 3)"
    using PEActive_checks [of "newPConn 10 ?wrap ?free" ?onInner ?clk 0] free
    by (simp add: newPConn_def statStart_def)
  have 7: "PEActive ?onWrap ?clk 0 (newPConn 10 ?wrap ?free) = None"
    using PEActive_checks [of "newPConn 10 ?wrap ?free" ?onWrap ?clk 0] free
    by (simp add: newPConn_def statStart_def)
  have nested: "PEActive ?onWrap ?clk (Suc 0) (newPConn 9 ?wrap ?free) = None"
    using PEActive_checks [of "newPConn 9 ?wrap ?free" ?onWrap ?clk "Suc 0"] free9
    by (simp add: newPConn_def statStart_def)
  have 8: "PEActive ?onWrap ?clk 0 (newPConn 10 (Adapter (newPConn 9 ?wrap ?free)) ?free)
      = Some (OtherError 4)"
    using PEActive_checks [of "newPConn 10 (Adapter (newPConn 9 ?wrap ?free)) ?free" ?onWrap ?clk 0
        "newPConn 9 ?wrap ?free"] free nested
    by (simp add: newPConn_def statStart_def)
  from 1 2 3 4 5 6 7 8 show ?thesis
    by (intro conjI)
qed

text \<open>
  Claim C2. \<^verbatim>\<open>Close\<close> itself makes no call on the raw connection: it hands it to the
  pool's \<^verbatim>\<open>Put\<close> as it was, with the calls it had received before. It records
  \<^verbatim>\<open>errCloseInRW\<close> exactly when no error was recorded and a marker is at \<^verbatim>\<open>statStart\<close>,
  changes nothing else, passes the adapter to \<^verbatim>\<open>Put\<close> and returns what \<^verbatim>\<open>Put\<close> returns.
\<close>

theorem Close_returns_to_pool:
  "raw (fst (Close put c)) = raw c
   \<and> lastErr (fst (Close put c)) =
       (if lastErr c = None \<and> (readStat c = statStart \<or> writeStat c = statStart)
        then Some errCloseInRW else lastErr c)
   \<and> (fst (Close put c) \<noteq> c) =
       (lastErr c = None \<and> (readStat c = statStart \<or> writeStat c = statStart))
   \<and> readStat (fst (Close put c)) = readStat c
   \<and> writeStat (fst (Close put c)) = writeStat c
   \<and> metaInfo (fst (Close put c)) = metaInfo c
   \<and> pool (fst (Close put c)) = pool c
   \<and> snd (Close put c) = put (fst (Close put c))"
  by (cases c) (auto simp: Close_def Let_def isDoing_def)

lemma applyConnOp_lastErr:
  "lastErr c \<noteq> None \<Longrightarrow> lastErr (applyConnOp x c) \<noteq> None"
  by (cases x) (auto simp: io_fields PEReset_fields Close_def)

lemma applyConnOp_succeeds:
  "lastErr c \<noteq> None \<Longrightarrow> succeeds x \<Longrightarrow> lastErr (applyConnOp x c) = lastErr c"
  by (cases x) (auto simp: io_fields PEReset_fields Close_def)

lemma runConnOps_lastErr:
  "lastErr c \<noteq> None \<Longrightarrow> lastErr (runConnOps xs c) \<noteq> None"
proof (induction xs arbitrary: c)
  case Nil
  then show ?case by simp
next
  case (Cons x xs)
  then have "lastErr (applyConnOp x c) \<noteq> None"
    by (intro applyConnOp_lastErr)
  then have "lastErr (runConnOps xs (applyConnOp x c)) \<noteq> None"
    by (rule Cons.IH)
  then show ?case by simp
qed

lemma runConnOps_succeeds:
  "lastErr c \<noteq> None \<Longrightarrow> list_all succeeds xs \<Longrightarrow> lastErr (runConnOps xs c) = lastErr c"
proof (induction xs arbitrary: c)
  case Nil
  then show ?case by simp
next
  case (Cons x xs)
  then have same: "lastErr (applyConnOp x c) = lastErr c"
    by (simp add: applyConnOp_succeeds)
  with Cons.prems have "lastErr (runConnOps xs (applyConnOp x c)) = lastErr (applyConnOp x c)"
    by (intro Cons.IH) simp_all
  with same show ?case by simp
qed

text \<open>
  Claim C3, amended. An operation that fails records its error as the last error. Once
  a last error is recorded, no operation of the adapter sets it back to \<^verbatim>\<open>nil\<close>, and
  every run of successful operations leaves it as it is; this holds for \<^verbatim>\<open>PEReset\<close> too,
  which never clears the last error (it resets the deadlines and the two markers only).
\<close>

theorem lastErr_sticky:
  "(err \<noteq> None \<longrightarrow>
      lastErr (fst (Read err c)) = err \<and> lastErr (fst (Write err c)) = err
      \<and> lastErr (fst (SetDeadline t err c)) = err
      \<and> lastErr (fst (SetReadDeadline t err c)) = err
      \<and> lastErr (fst (SetWriteDeadline t err c)) = err)
   \<and> (lastErr c \<noteq> None \<longrightarrow> lastErr (runConnOps xs c) \<noteq> None)
   \<and> (lastErr c \<noteq> None \<and> list_all succeeds xs \<longrightarrow> lastErr (runConnOps xs c) = lastErr c)
   \<and> lastErr (PEReset None None None c) = lastErr c"
  using runConnOps_lastErr [of c xs] runConnOps_succeeds [of c xs]
  by (simp add: io_fields PEReset_fields)

theorem lastErr_sticky_witness:
  "lastErr (fst (Read (Some (OtherError 1))
      (newPConn 0 (Socket 0 None []) \<lparr>Option = \<lparr>MaxIdleTime = 0, MaxLifeTime = 0\<rparr>\<rparr>)))
     = Some (OtherError 1)
   \<and> list_all succeeds [DoWrite None, DoPEReset None None None, DoClose, DoRead None]
   \<and> lastErr (runConnOps [DoWrite None, DoPEReset None None None, DoClose, DoRead None]
       (fst (Read (Some (OtherError 1))
         (newPConn 0 (Socket 0 None []) \<lparr>Option = \<lparr>MaxIdleTime = 0, MaxLifeTime = 0\<rparr>\<rparr>))))
     = Some (OtherError 1)"
proof -
  let ?c = "newPConn 0 (Socket 0 None []) \<lparr>Option = \<lparr>MaxIdleTime = 0, MaxLifeTime = 0\<rparr>\<rparr>"
  let ?xs = "[DoWrite None, DoPEReset None None None, DoClose, DoRead None]"
  have r: "lastErr (fst (Read (Some (OtherError 1)) ?c)) = Some (OtherError 1)"
    using lastErr_sticky [of "Some (OtherError 1)" ?c 0 "[]"] by simp
  have s: "list_all succeeds ?xs"
    by simp
  have "lastErr (runConnOps ?xs (fst (Read (Some (OtherError 1)) ?c)))
      = lastErr (fst (Read (Some (OtherError 1)) ?c))"
    using lastErr_sticky [of None "fst (Read (Some (OtherError 1)) ?c)" 0 ?xs] r s
    by (simp del: runConnOps.simps)
  with r s show ?thesis
    by (simp del: runConnOps.simps)
qed

theorem lastErr_sticky_counterexample:
  "lastErr (PEReset None None None
      (fst (Read (Some (OtherError 1))
        (newPConn 0 (Socket 0 None []) \<lparr>Option = \<lparr>MaxIdleTime = 0, MaxLifeTime = 0\<rparr>\<rparr>))))
     = Some (OtherError 1)"
  by (simp add: PEReset_fields io_fields)

text \<open>
  Claim C7. After \<^verbatim>\<open>PEReset\<close> both markers are \<^verbatim>\<open>statInit\<close>, and the last three calls
  that the raw connection has received are \<^verbatim>\<open>SetDeadline\<close>, \<^verbatim>\<open>SetReadDeadline\<close> and
  \<^verbatim>\<open>SetWriteDeadline\<close>, each with the zero time, whatever the raw connection answers and
  however deeply adapters are nested.
\<close>

theorem PEReset_clears_deadlines:
  "readStat (PEReset e1 e2 e3 c) = statInit
   \<and> writeStat (PEReset e1 e2 e3 c) = statInit
   \<and> received (raw (PEReset e1 e2 e3 c)) =
       received (raw c) @
         [CallSetDeadline zeroTime, CallSetReadDeadline zeroTime, CallSetWriteDeadline zeroTime]"
  by (simp add: PEReset_fields received_invoke)

lemma innermost_not_Adapter: "innermost r \<noteq> Adapter q"
  by (induction r rule: innermost.induct) simp_all

text \<open>
  Claim C8. \<^verbatim>\<open>Raw\<close> returns the connection the adapter wraps, and \<open>getRawConn\<close>, on which
  \<^verbatim>\<open>PEActive\<close> runs the liveness probe, unwraps it by one level only: for an adapter whose
  raw connection is an adapter wrapping a further adapter \<open>q\<close>, it returns the adapter \<open>q\<close>,
  which is not the innermost connection.
\<close>

theorem getRawConn_one_level:
  "Raw c = raw c
   \<and> getRawConn (PConn m p (Adapter (PConn m' p' (Adapter q) e' rs' ws')) e rs ws) = Adapter q
   \<and> getRawConn (PConn m p (Adapter (PConn m' p' (Adapter q) e' rs' ws')) e rs ws)
       \<noteq> innermost (raw (PConn m p (Adapter (PConn m' p' (Adapter q) e' rs' ws')) e rs ws))"
  using innermost_not_Adapter [of "raw (PConn m p (Adapter (PConn m' p' (Adapter q) e' rs' ws')) e rs ws)" q]
  by (simp add: Raw_def getRawConn_cases)

subsection \<open>Reading the metadata of any value\<close>

text \<open>
  Claim C9, amended. \<^verbatim>\<open>ReadMeta\<close> panics on the type assertion exactly for the arguments
  without the method \<^verbatim>\<open>PEMeta\<close> (the \<^verbatim>\<open>nil\<close> interface included) and returns a \<^verbatim>\<open>Meta\<close> for
  none of them. For an argument with the method it does what the call of \<^verbatim>\<open>PEMeta\<close> does:
  it returns the copy of the metadata for a \<^verbatim>\<open>*MetaInfo\<close> with its metadata and for an
  adapter embedding one, and what the method returns for a foreign type; it panics on a
  \<^verbatim>\<open>nil\<close> dereference for a \<^verbatim>\<open>nil\<close> \<^verbatim>\<open>*MetaInfo\<close> or \<^verbatim>\<open>*pConn\<close>, for a \<^verbatim>\<open>MetaInfo\<close> whose
  \<^verbatim>\<open>meta\<close> is \<^verbatim>\<open>nil\<close> and for an adapter embedding either, and it panics when the foreign
  method does.
\<close>

theorem ReadMeta_panics:
  "(\<not> implementsPEMeta x \<longrightarrow> ReadMeta x = Inl PanicTypeAssertion)
   \<and> (ReadMeta x = Inl PanicTypeAssertion) = (\<not> implementsPEMeta x)
   \<and> (\<forall>m. ReadMeta x = Inr m \<longrightarrow> implementsPEMeta x)
   \<and> ReadMeta (ItemMetaInfo (RefMetaInfo w)) = Inr (meta w)
   \<and> ReadMeta (ItemPConn (PConnWith (RefMetaInfo w))) = Inr (meta w)
   \<and> ReadMeta (itemOfPConn c) = Inr (meta (metaInfo c))
   \<and> ReadMeta (ItemOther i (Some (Some m0))) = Inr m0
   \<and> ReadMeta (ItemMetaInfo NilMetaInfo) = Inl PanicNilDereference
   \<and> ReadMeta (ItemMetaInfo MetaInfoNoMeta) = Inl PanicNilDereference
   \<and> ReadMeta (ItemPConn NilPConn) = Inl PanicNilDereference
   \<and> ReadMeta (ItemPConn (PConnWith NilMetaInfo)) = Inl PanicNilDereference
   \<and> ReadMeta (ItemPConn (PConnWith MetaInfoNoMeta)) = Inl PanicNilDereference
   \<and> ReadMeta (ItemOther i (Some None)) = Inl PanicInForeignMethod"
proof -
  have a: "(ReadMeta x = Inl PanicTypeAssertion) = (\<not> implementsPEMeta x)"
  proof (cases x)
    case ItemNil
    then show ?thesis by simp
  next
    case (ItemMetaInfo r)
    then show ?thesis by (cases r) simp_all
  next
    case (ItemPConn r)
    show ?thesis
    proof (cases r)
      case NilPConn
      with ItemPConn show ?thesis by simp
    next
      case (PConnWith r')
      with ItemPConn show ?thesis by (cases r') simp_all
    qed
  next
    case (ItemOther k res)
    show ?thesis
    proof (cases res)
      case None
      with ItemOther show ?thesis by simp
    next
      case (Some v)
      with ItemOther show ?thesis by (cases v) simp_all
    qed
  qed
  have b: "implementsPEMeta x" if "ReadMeta x = Inr m" for m
    using that a by (cases "implementsPEMeta x") simp_all
  have rest: "ReadMeta (ItemMetaInfo (RefMetaInfo w)) = Inr (meta w)
   \<and> ReadMeta (ItemPConn (PConnWith (RefMetaInfo w))) = Inr (meta w)
   \<and> ReadMeta (itemOfPConn c) = Inr (meta (metaInfo c))
   \<and> ReadMeta (ItemOther i (Some (Some m0))) = Inr m0
   \<and> ReadMeta (ItemMetaInfo NilMetaInfo) = Inl PanicNilDereference
   \<and> ReadMeta (ItemMetaInfo MetaInfoNoMeta) = Inl PanicNilDereference
   \<and> ReadMeta (ItemPConn NilPConn) = Inl PanicNilDereference
   \<and> ReadMeta (ItemPConn (PConnWith NilMetaInfo)) = Inl PanicNilDereference
   \<and> ReadMeta (ItemPConn (PConnWith MetaInfoNoMeta)) = Inl PanicNilDereference
   \<and> ReadMeta (ItemOther i (Some None)) = Inl PanicInForeignMethod"
    by (simp add: PEMeta_def itemOfPConn_def)
  from a b rest show ?thesis
    by blast
qed

theorem ReadMeta_panics_witness:
  "ReadMeta (ItemMetaInfo (RefMetaInfo (PEMarkUsing 7 (NewMetaInfo 5))))
       = Inr \<lparr>CreateTime = 5, LastUseTime = 7, UsedTimes = 1, UsedDuration = 0\<rparr>
   \<and> implementsPEMeta (ItemMetaInfo (RefMetaInfo (PEMarkUsing 7 (NewMetaInfo 5))))
   \<and> \<not> implementsPEMeta ItemNil \<and> ReadMeta ItemNil = Inl PanicTypeAssertion
   \<and> \<not> implementsPEMeta (ItemOther 3 None) \<and> ReadMeta (ItemOther 3 None) = Inl PanicTypeAssertion"
proof -
  let ?w = "PEMarkUsing 7 (NewMetaInfo 5)"
  have r: "ReadMeta (ItemMetaInfo (RefMetaInfo ?w))
      = Inr \<lparr>CreateTime = 5, LastUseTime = 7, UsedTimes = 1, UsedDuration = 0\<rparr>"
    using ReadMeta_panics [of "ItemMetaInfo (RefMetaInfo ?w)" ?w]
    by (simp add: PEMarkUsing_def NewMetaInfo_def)
  have i: "implementsPEMeta (ItemMetaInfo (RefMetaInfo ?w))"
    using ReadMeta_panics [of "ItemMetaInfo (RefMetaInfo ?w)" ?w] r by blast
  have n: "\<not> implementsPEMeta ItemNil" "\<not> implementsPEMeta (ItemOther 3 None)"
    by simp_all
  have p: "ReadMeta ItemNil = Inl PanicTypeAssertion"
    "ReadMeta (ItemOther 3 None) = Inl PanicTypeAssertion"
    using ReadMeta_panics [of ItemNil] ReadMeta_panics [of "ItemOther 3 None"] n by blast+
  from r i n p show ?thesis
    by (intro conjI)
qed

theorem ReadMeta_panics_counterexample:
  "implementsPEMeta (ItemMetaInfo MetaInfoNoMeta)
   \<and> ReadMeta (ItemMetaInfo MetaInfoNoMeta) = Inl PanicNilDereference
   \<and> implementsPEMeta (ItemMetaInfo NilMetaInfo)
   \<and> ReadMeta (ItemMetaInfo NilMetaInfo) = Inl PanicNilDereference"
  by simp

subsection \<open>Registry of encoder pools\<close>

lemma registerAll_keeps:
  "reg n \<noteq> None \<Longrightarrow> registerAll xs reg n = reg n"
proof (induction xs reg rule: registerAll.induct)
  case (1 reg)
  then show ?case by simp
next
  case (2 k pl xs reg)
  let ?reg = "case RegisterEncoderPool k pl reg of Inl _ \<Rightarrow> reg | Inr (_, reg') \<Rightarrow> reg'"
  have same: "?reg n = reg n"
    using "2.prems" by (auto simp: RegisterEncoderPool_def split: option.splits)
  with "2.prems" have "registerAll xs ?reg n = ?reg n"
    by (intro "2.IH") simp
  with same show ?case by simp
qed

lemma registerAll_fresh:
  "reg n = None \<Longrightarrow> n \<notin> fst ` set xs \<Longrightarrow> registerAll xs reg n = None"
proof (induction xs reg rule: registerAll.induct)
  case (1 reg)
  then show ?case by simp
next
  case (2 k pl xs reg)
  let ?reg = "case RegisterEncoderPool k pl reg of Inl _ \<Rightarrow> reg | Inr (_, reg') \<Rightarrow> reg'"
  have "k \<noteq> n"
    using "2.prems"(2) by auto
  with "2.prems"(1) have "?reg n = None"
    by (auto simp: RegisterEncoderPool_def split: option.splits)
  moreover have "n \<notin> fst ` set xs"
    using "2.prems"(2) by auto
  ultimately have "registerAll xs ?reg n = None"
    by (intro "2.IH")
  then show ?case by simp
qed

lemma registerAll_defaults:
  "registerAll xs encoderPools (NameString encoderPoolNameDefaultText) = Some DefaultTextEncoderPool"
  "registerAll xs encoderPools (NameString encoderPoolNameDefaultJSON) = Some DefaultJSONEncoderPool"
  by (simp_all add: registerAll_keeps encoderPools_def encoderPoolNameDefaultText_def
      encoderPoolNameDefaultJSON_def)

text \<open>
  Claim C10, amended. In every registry reached from the initial one by calls of
  \<^verbatim>\<open>RegisterEncoderPool\<close>, where \<^verbatim>\<open>default_text\<close> and \<^verbatim>\<open>default_json\<close> are registered
  from the start, and for every name of a comparable type: when the name is registered
  \<^verbatim>\<open>RegisterEncoderPool\<close> returns an error and leaves the registry unchanged; otherwise it
  adds the mapping and returns \<^verbatim>\<open>nil\<close>, after which \<^verbatim>\<open>GetEncoderPool\<close> returns the
  registered pool; and \<^verbatim>\<open>GetEncoderPool\<close> returns \<^verbatim>\<open>nil\<close> for a name that was never
  registered.
\<close>

theorem RegisterEncoderPool_registry:
  "registerAll xs encoderPools (NameString ''default_text'') \<noteq> None
   \<and> registerAll xs encoderPools (NameString ''default_json'') \<noteq> None
   \<and> (hashable n \<and> registerAll xs encoderPools n \<noteq> None \<longrightarrow>
        RegisterEncoderPool n pl (registerAll xs encoderPools)
          = Inr (Some (ErrAlreadyExists n), registerAll xs encoderPools))
   \<and> (hashable n \<and> registerAll xs encoderPools n = None \<longrightarrow>
        RegisterEncoderPool n pl (registerAll xs encoderPools)
          = Inr (None, (registerAll xs encoderPools)(n \<mapsto> pl))
        \<and> GetEncoderPool n ((registerAll xs encoderPools)(n \<mapsto> pl)) = Inr pl
        \<and> GetEncoderPool n (registerAll xs encoderPools) = Inr None)
   \<and> (hashable n \<and> n \<notin> fst ` set xs \<and> n \<noteq> NameString ''default_text''
        \<and> n \<noteq> NameString ''default_json'' \<longrightarrow>
        GetEncoderPool n (registerAll xs encoderPools) = Inr None)
   \<and> (\<not> hashable n \<longrightarrow>
        RegisterEncoderPool n pl reg = Inl PanicUnhashableKey
        \<and> GetEncoderPool n reg = Inl PanicUnhashableKey)"
proof -
  let ?reg = "registerAll xs encoderPools"
  have d1: "?reg (NameString ''default_text'') \<noteq> None"
    and d2: "?reg (NameString ''default_json'') \<noteq> None"
    using registerAll_defaults [of xs]
    by (simp_all add: encoderPoolNameDefaultText_def encoderPoolNameDefaultJSON_def)
  have a: "RegisterEncoderPool n pl ?reg = Inr (Some (ErrAlreadyExists n), ?reg)"
    if "hashable n" "?reg n \<noteq> None"
    using that by (auto simp: RegisterEncoderPool_def)
  have b: "RegisterEncoderPool n pl ?reg = Inr (None, ?reg(n \<mapsto> pl))"
    if "hashable n" "?reg n = None"
    using that by (simp add: RegisterEncoderPool_def)
  have nd: "n \<noteq> NameString encoderPoolNameDefaultText \<and> n \<noteq> NameString encoderPoolNameDefaultJSON"
    if "?reg n = None"
    using that d1 d2
    by (auto simp: encoderPoolNameDefaultText_def encoderPoolNameDefaultJSON_def)
  have c: "GetEncoderPool n (?reg(n \<mapsto> pl)) = Inr pl"
    if "hashable n" "?reg n = None"
    using that nd by (simp add: GetEncoderPool_def)
  have e: "GetEncoderPool n ?reg = Inr None"
    if "hashable n" "?reg n = None"
    using that nd by (simp add: GetEncoderPool_def)
  have f: "?reg n = None"
    if "n \<notin> fst ` set xs" "n \<noteq> NameString ''default_text''" "n \<noteq> NameString ''default_json''"
    using that
    by (intro registerAll_fresh)
      (simp_all add: encoderPools_def encoderPoolNameDefaultText_def encoderPoolNameDefaultJSON_def)
  have g: "GetEncoderPool n ?reg = Inr None"
    if "hashable n" "n \<notin> fst ` set xs" "n \<noteq> NameString ''default_text''"
      "n \<noteq> NameString ''default_json''"
    using that e f by simp
  have h: "RegisterEncoderPool n pl reg = Inl PanicUnhashableKey
      \<and> GetEncoderPool n reg = Inl PanicUnhashableKey"
    if "\<not> hashable n"
    using that by (cases n) (simp_all add: RegisterEncoderPool_def GetEncoderPool_def)
  show ?thesis
    using d1 d2 a b c e g h by simp
qed

theorem RegisterEncoderPool_registry_witness:
  "hashable (NameString ''default_json'')
   \<and> RegisterEncoderPool (NameString ''default_json'') (Some 5) (registerAll [] encoderPools)
       = Inr (Some (ErrAlreadyExists (NameString ''default_json'')), registerAll [] encoderPools)
   \<and> hashable (NameString ''json_stream'')
   \<and> registerAll [(NameOther 1, Some 4)] encoderPools (NameString ''json_stream'') = None
   \<and> GetEncoderPool (NameString ''json_stream'')
        ((registerAll [(NameOther 1, Some 4)] encoderPools)(NameString ''json_stream'' \<mapsto> Some 5))
       = Inr (Some 5)
   \<and> GetEncoderPool (NameString ''json_stream'') (registerAll [(NameOther 1, Some 4)] encoderPools)
       = Inr None
   \<and> \<not> hashable (NameUnhashable 3)
   \<and> RegisterEncoderPool (NameUnhashable 3) (Some 5) (registerAll [(NameOther 1, Some 4)] encoderPools)
       = Inl PanicUnhashableKey
   \<and> GetEncoderPool (NameUnhashable 3) (registerAll [(NameOther 1, Some 4)] encoderPools)
       = Inl PanicUnhashableKey"
proof -
  let ?js = "NameString ''json_stream''"
  let ?dj = "NameString ''default_json''"
  let ?xs = "[(NameOther 1, Some 4)]"
  have h1: "hashable ?dj" "hashable ?js"
    by simp_all
  have h2: "registerAll [] encoderPools ?dj \<noteq> None"
    by (simp add: encoderPools_def encoderPoolNameDefaultJSON_def)
  have h3: "registerAll ?xs encoderPools ?js = None"
    by (simp add: encoderPools_def RegisterEncoderPool_def encoderPoolNameDefaultJSON_def
        encoderPoolNameDefaultText_def)
  have 1: "RegisterEncoderPool ?dj (Some 5) (registerAll [] encoderPools)
       = Inr (Some (ErrAlreadyExists ?dj), registerAll [] encoderPools)"
    using RegisterEncoderPool_registry [of "[]" ?dj "Some 5"] h1 h2 by blast
  have 2: "GetEncoderPool ?js ((registerAll ?xs encoderPools)(?js \<mapsto> Some 5)) = Inr (Some 5)
    \<and> GetEncoderPool ?js (registerAll ?xs encoderPools) = Inr None"
    using RegisterEncoderPool_registry [of ?xs ?js "Some 5"] h1 h3 by blast
  have h4: "\<not> hashable (NameUnhashable 3)"
    by simp
  have 3: "RegisterEncoderPool (NameUnhashable 3) (Some 5) (registerAll ?xs encoderPools)
       = Inl PanicUnhashableKey
    \<and> GetEncoderPool (NameUnhashable 3) (registerAll ?xs encoderPools) = Inl PanicUnhashableKey"
    using RegisterEncoderPool_registry [of "[]" "NameUnhashable 3" "Some 5" "registerAll ?xs encoderPools"]
      h4 by blast
  from h1 h3 h4 1 2 3 show ?thesis
    by (intro conjI) simp_all
qed

theorem RegisterEncoderPool_registry_counterexample:
  "RegisterEncoderPool (NameUnhashable 0) (Some 5) encoderPools = Inl PanicUnhashableKey
   \<and> GetEncoderPool (NameUnhashable 0) encoderPools = Inl PanicUnhashableKey"
  by (simp add: RegisterEncoderPool_def GetEncoderPool_def)

end
